theory Spec2Isabelle
  imports Complex_Main "HOL-Library.Word" "HOL-Library.Monad_Syntax"
begin

chapter \<open>pdf2video: the video compositor and the WAV wrapper\<close>

text \<open>
  A shallow embedding of \<^verbatim>\<open>services/videoService.ts\<close> (\<^verbatim>\<open>generateVideo\<close>) and of
  \<^verbatim>\<open>services/audioUtils.ts\<close> (\<^verbatim>\<open>pcmToWav\<close>, \<^verbatim>\<open>createWavHeader\<close>,
  \<^verbatim>\<open>writeString\<close>), with the data of \<^verbatim>\<open>types.ts\<close>.

  Conventions. A JavaScript exception or a rejected promise is a value of type
  \<open>error\<close>. The browser objects the code talks to (canvas, audio context, recorder,
  streams) are not part of the repository: what they answer is read from a record
  \<open>Runtime\<close>, and every call the code makes on them is appended, in program order, to a
  log of type \<open>call list\<close>. JavaScript numbers are idealised: counts and sizes are
  \<open>nat\<close>, times and canvas coordinates are exact rationals.
\<close>

section \<open>Data\<close>

type_synonym byte = "8 word"

text \<open>A \<^verbatim>\<open>Blob\<close>: its bytes and its \<^verbatim>\<open>type\<close> option.\<close>

record Blob =
  blob_bytes :: "byte list"
  blob_type :: string

datatype error =
    NoCanvasContext         \<comment> \<open>\<^verbatim>\<open>new Error('No canvas context')\<close>\<close>
  | TypeError               \<comment> \<open>calling or constructing \<^verbatim>\<open>undefined\<close>\<close>
  | NotSupportedError       \<comment> \<open>\<^verbatim>\<open>new MediaRecorder\<close> with a type it cannot record\<close>
  | ImageLoadError          \<comment> \<open>\<^verbatim>\<open>img.onerror\<close>\<close>
  | EncodingError           \<comment> \<open>\<^verbatim>\<open>decodeAudioData\<close> rejects\<close>
  | InvalidCharacterError   \<comment> \<open>\<^verbatim>\<open>atob\<close> on a string that is not base64\<close>
  | RangeError              \<comment> \<open>a \<^verbatim>\<open>DataView\<close> access outside the buffer\<close>

section \<open>audioUtils.ts\<close>

subsection \<open>DataView setters\<close>

text \<open>
  The view is the list of the bytes of its \<^verbatim>\<open>ArrayBuffer\<close>. A setter converts its value
  to an unsigned integer of its width (modulo \<open>2 ^ 8\<close>, \<open>2 ^ 16\<close>, \<open>2 ^ 32\<close>) and throws
  \<^verbatim>\<open>RangeError\<close> when the access does not fit the buffer: \<open>None\<close>.
\<close>

definition uint_bytes :: "nat \<Rightarrow> nat \<Rightarrow> bool \<Rightarrow> byte list" where
  "uint_bytes k v littleEndian =
     (let bs = map (\<lambda>i. of_nat (v div 256 ^ i)) [0..<k]
      in if littleEndian then bs else rev bs)"

fun store :: "byte list \<Rightarrow> nat \<Rightarrow> byte list \<Rightarrow> byte list" where
  "store view offset [] = view"
| "store view offset (b # bs) = store (view[offset := b]) (offset + 1) bs"

definition setUint :: "nat \<Rightarrow> byte list \<Rightarrow> nat \<Rightarrow> nat \<Rightarrow> bool \<Rightarrow> byte list option" where
  "setUint k view byteOffset v littleEndian =
     (if length view < byteOffset + k then None
      else Some (store view byteOffset (uint_bytes k v littleEndian)))"

definition setUint8 :: "byte list \<Rightarrow> nat \<Rightarrow> nat \<Rightarrow> byte list option" where
  "setUint8 view byteOffset v = setUint 1 view byteOffset v True"

definition setUint16 :: "byte list \<Rightarrow> nat \<Rightarrow> nat \<Rightarrow> bool \<Rightarrow> byte list option" where
  "setUint16 = setUint 2"

definition setUint32 :: "byte list \<Rightarrow> nat \<Rightarrow> nat \<Rightarrow> bool \<Rightarrow> byte list option" where
  "setUint32 = setUint 4"

text \<open>The matching little-endian readers, used to state what a header field holds.\<close>

fun uint_le :: "byte list \<Rightarrow> nat" where
  "uint_le [] = 0"
| "uint_le (b # bs) = unat b + 256 * uint_le bs"

definition getUint :: "nat \<Rightarrow> byte list \<Rightarrow> nat \<Rightarrow> nat" where
  "getUint k view byteOffset = uint_le (take k (drop byteOffset view))"

subsection \<open>writeString, createWavHeader, pcmToWav\<close>

text \<open>
  \<^verbatim>\<open>for (let i = 0; i < string.length; i++) view.setUint8(offset + i, string.charCodeAt(i))\<close>
\<close>

fun writeString :: "byte list \<Rightarrow> nat \<Rightarrow> string \<Rightarrow> byte list option" where
  "writeString view offset [] = Some view"
| "writeString view offset (c # cs) =
     do { view' \<leftarrow> setUint8 view offset (of_char c);
          writeString view' (offset + 1) cs }"

text \<open>
  \<open>dataLength\<close> is a byte count and \<open>sampleRate\<close> a sample rate in Hz, both taken as
  natural numbers; \<open>(sampleRate * numChannels * bitsPerSample) / 8\<close> is then exact.
\<close>

definition createWavHeader :: "nat \<Rightarrow> nat \<Rightarrow> byte list option" where
  "createWavHeader dataLength sampleRate =
     (let numChannels = 1;
          bitsPerSample = 16;
          byteRate = (sampleRate * numChannels * bitsPerSample) div 8;
          blockAlign = (numChannels * bitsPerSample) div 8;
          view = replicate 44 0
      in do {
        view \<leftarrow> writeString view 0 ''RIFF'';
        view \<leftarrow> setUint32 view 4 (36 + dataLength) True;
        view \<leftarrow> writeString view 8 ''WAVE'';
        view \<leftarrow> writeString view 12 ''fmt '';
        view \<leftarrow> setUint32 view 16 16 True;
        view \<leftarrow> setUint16 view 20 1 True;
        view \<leftarrow> setUint16 view 22 numChannels True;
        view \<leftarrow> setUint32 view 24 sampleRate True;
        view \<leftarrow> setUint32 view 28 byteRate True;
        view \<leftarrow> setUint16 view 32 blockAlign True;
        view \<leftarrow> setUint16 view 34 bitsPerSample True;
        view \<leftarrow> writeString view 36 ''data'';
        view \<leftarrow> setUint32 view 40 dataLength True;
        Some view
      })"

text \<open>
  \<^verbatim>\<open>atob\<close> is the browser's: it is a parameter, giving the code units of the binary string
  or \<open>None\<close> when it throws. Storing a code unit into the \<^verbatim>\<open>Uint8Array\<close> keeps its low
  eight bits. The default \<^verbatim>\<open>sampleRate = 24000\<close> is \<open>pcmToWav_default\<close>.
\<close>

definition pcmToWav :: "(string \<Rightarrow> nat list option) \<Rightarrow> string \<Rightarrow> nat \<Rightarrow> error + Blob" where
  "pcmToWav atob base64Pcm sampleRate =
     (case atob base64Pcm of
        None \<Rightarrow> Inl InvalidCharacterError
      | Some binaryString \<Rightarrow>
          (let bytes = map of_nat binaryString :: byte list
           in case createWavHeader (length bytes) sampleRate of
                None \<Rightarrow> Inl RangeError
              | Some wavHeader \<Rightarrow>
                  Inr \<lparr>blob_bytes = wavHeader @ bytes, blob_type = ''audio/wav''\<rparr>))"

definition pcmToWav_default :: "(string \<Rightarrow> nat list option) \<Rightarrow> string \<Rightarrow> error + Blob" where
  "pcmToWav_default atob base64Pcm = pcmToWav atob base64Pcm 24000"

section \<open>types.ts\<close>

datatype SlideStatus = pending | ready | failed   \<comment> \<open>\<^verbatim>\<open>'pending' | 'ready' | 'error'\<close>\<close>

record Slide =
  slide_id :: string                 \<comment> \<open>\<^verbatim>\<open>id\<close>\<close>
  pageIndex :: nat
  imageBlob :: Blob
  imageUrl :: string
  script :: string
  audioBlob :: "Blob option"         \<comment> \<open>\<^verbatim>\<open>Blob | null\<close>\<close>
  audioUrl :: "string option"
  duration :: rat                    \<comment> \<open>in seconds\<close>
  isProcessing :: bool
  status :: SlideStatus

section \<open>The browser, as videoService.ts sees it\<close>

record HTMLImageElement =
  width :: nat
  height :: nat

record AudioBuffer =
  buffer_duration :: rat             \<comment> \<open>\<^verbatim>\<open>AudioBuffer.duration\<close>, seconds\<close>

datatype AudioContextState = suspended | running

text \<open>
  \<^verbatim>\<open>window.MediaRecorder\<close>: its static \<^verbatim>\<open>isTypeSupported\<close> (absent in some engines), and
  whether its constructor takes a MIME type or throws \<^verbatim>\<open>NotSupportedError\<close>.
\<close>

record MediaRecorderClass =
  isTypeSupported :: "(string \<Rightarrow> bool) option"
  constructs :: "string \<Rightarrow> bool"

text \<open>
  What the host answers during one run.
  \<^item> \<open>getContext\<close>: \<^verbatim>\<open>canvas.getContext('2d', ...)\<close> is not null.
  \<^item> \<open>MediaRecorder\<close>, \<open>AudioContext\<close>, \<open>webkitAudioContext\<close>: the globals, \<open>None\<close> for
    \<^verbatim>\<open>undefined\<close>; an audio context class is given by the state a new context starts in.
  \<^item> \<open>captureStream\<close>: \<^verbatim>\<open>canvas.captureStream\<close> is a function.
  \<^item> \<open>imageAt\<close>: the image a URL loads to, \<open>None\<close> when \<^verbatim>\<open>onerror\<close> fires.
  \<^item> \<open>decodeAudioData\<close>: the decoded buffer of some bytes, \<open>None\<close> when decoding rejects.
  \<^item> \<open>currentTime k\<close>: what \<^verbatim>\<open>audioCtx.currentTime\<close> reads in the \<open>k\<close>-th task of the run
    that reads it (0-based). The reads of one task agree: \<^verbatim>\<open>source.start\<close>,
    \<^verbatim>\<open>startTime\<close> and the synchronous first call of \<^verbatim>\<open>draw\<close> share a reading, and each
    later animation frame takes the next one.
  \<^item> \<open>dataavailable\<close>: the \<^verbatim>\<open>e.data\<close> of the recorder's \<^verbatim>\<open>dataavailable\<close> events, in order.
\<close>

record Runtime =
  getContext :: bool
  MediaRecorder :: "MediaRecorderClass option"
  AudioContext :: "AudioContextState option"
  webkitAudioContext :: "AudioContextState option"
  captureStream :: bool
  imageAt :: "string \<Rightarrow> HTMLImageElement option"
  decodeAudioData :: "byte list \<Rightarrow> AudioBuffer option"
  currentTime :: "nat \<Rightarrow> rat"
  dataavailable :: "Blob option list"

datatype Stream = combinedStream | canvasStream

text \<open>The calls \<^verbatim>\<open>generateVideo\<close> makes on the host, logged in program order.\<close>

datatype call =
    GetContext2d
  | IsTypeSupported string
  | NewAudioContext
  | Resume
  | CreateMediaStreamDestination
  | CaptureStream nat
  | NewMediaStream
  | NewMediaRecorder string nat               \<comment> \<open>\<open>mimeType\<close>, \<open>videoBitsPerSecond\<close>\<close>
  | RecorderStart
  | SetFillStyle string
  | FillRect nat nat nat nat
  | OnProgress string
  | LoadImage string                          \<comment> \<open>\<^verbatim>\<open>img.src = src\<close>\<close>
  | DecodeAudioData Blob
  | CreateBufferSource AudioBuffer
  | Connect
  | SourceStart rat
  | DrawImage HTMLImageElement "(rat \<times> rat \<times> rat \<times> rat) option"
  | RequestAnimationFrame
  | SetTimeout nat
  | RecorderStop
  | NewBlob Blob
  | AudioCtxClose
  | StopTracks Stream

section \<open>videoService.ts\<close>

definition WIDTH :: nat where "WIDTH = 1920"
definition HEIGHT :: nat where "HEIGHT = 1080"
definition FPS :: nat where "FPS = 30"
definition BITRATE :: nat where "BITRATE = 8000000"

subsection \<open>MIME type detection\<close>

text \<open>
  \<^verbatim>\<open>AnyMediaRecorder?.isTypeSupported?.(t)\<close>: \<^verbatim>\<open>undefined\<close> (falsy), with no call made,
  when the class or the method is missing; otherwise the call and its answer.
\<close>

definition probe :: "MediaRecorderClass option \<Rightarrow> string \<Rightarrow> bool \<times> call list" where
  "probe AnyMediaRecorder t =
     (case AnyMediaRecorder of
        None \<Rightarrow> (False, [])
      | Some mr \<Rightarrow>
          (case isTypeSupported mr of
             None \<Rightarrow> (False, [])
           | Some f \<Rightarrow> (f t, [IsTypeSupported t])))"

definition detectMimeType :: "MediaRecorderClass option \<Rightarrow> string \<times> call list" where
  "detectMimeType AnyMediaRecorder =
     (let mimeType = ''video/webm; codecs=vp9'';
          (mp4, calls1) = probe AnyMediaRecorder ''video/mp4''
      in if mp4 then (''video/mp4'', calls1)
         else
           (let (h264, calls2) = probe AnyMediaRecorder ''video/webm; codecs=h264''
            in if h264 then (''video/webm; codecs=h264'', calls1 @ calls2)
               else (mimeType, calls1 @ calls2)))"

subsection \<open>Helpers\<close>

definition loadImage :: "Runtime \<Rightarrow> string \<Rightarrow> error + HTMLImageElement" where
  "loadImage rt src =
     (case imageAt rt src of None \<Rightarrow> Inl ImageLoadError | Some img \<Rightarrow> Inr img)"

definition decodeAudio :: "Runtime \<Rightarrow> Blob \<Rightarrow> error + AudioBuffer" where
  "decodeAudio rt blob =
     (case decodeAudioData rt (blob_bytes blob) of
        None \<Rightarrow> Inl EncodingError
      | Some audioBuffer \<Rightarrow> Inr audioBuffer)"

subsection \<open>The draw loop\<close>

text \<open>
  The aspect ratio fit of lines 116 to 120. With a zero width or height the JavaScript
  arithmetic leaves the rationals (\<^verbatim>\<open>Infinity\<close>, \<^verbatim>\<open>NaN\<close>); \<^verbatim>\<open>drawImage\<close> with a
  non-finite argument draws nothing: \<open>None\<close>.
\<close>

definition fit :: "nat \<Rightarrow> nat \<Rightarrow> (rat \<times> rat \<times> rat \<times> rat) option" where
  "fit w h =
     (if w = 0 \<or> h = 0 then None
      else
        (let scale = min (of_nat WIDTH / of_nat w) (of_nat HEIGHT / of_nat h);
             drawW = of_nat w * scale;
             drawH = of_nat h * scale;
             x = (of_nat WIDTH - drawW) / 2;
             y = (of_nat HEIGHT - drawH) / 2
         in Some (x, y, drawW, drawH)))"

text \<open>One pass of \<^verbatim>\<open>draw\<close> that does not resolve: lines 111 to 124.\<close>

definition drawFrame :: "HTMLImageElement \<Rightarrow> call list" where
  "drawFrame img =
     [SetFillStyle ''black'', FillRect 0 0 WIDTH HEIGHT,
      DrawImage img (fit (width img) (height img)),
      RequestAnimationFrame]"

text \<open>
  \<^verbatim>\<open>draw\<close> re-schedules itself until the audio clock reaches \<open>endTime\<close>; when the clock
  never does, the promise never resolves: \<open>None\<close>. \<open>k\<close> counts the clock readings taken so
  far; the result is the count after the loop and the calls made.
\<close>

partial_function (option) draw ::
  "Runtime \<Rightarrow> HTMLImageElement \<Rightarrow> rat \<Rightarrow> nat \<Rightarrow> (nat \<times> call list) option" where
  "draw rt img endTime k =
     (let now = currentTime rt k
      in if endTime \<le> now then Some (k + 1, [])
         else Option.bind (draw rt img endTime (k + 1))
                (\<lambda>(k', calls). Some (k', drawFrame img @ calls)))"

declare draw.simps [code]

subsection \<open>Progress messages\<close>

definition digit :: "nat \<Rightarrow> char" where
  "digit d = ''0123456789'' ! d"

function toString :: "nat \<Rightarrow> string" where
  "toString n = (if n < 10 then [digit n] else toString (n div 10) @ [digit (n mod 10)])"
  by pat_completeness auto
termination
  by (relation "measure id") auto

declare toString.simps [simp del]

text \<open>The template literal of line 84; its first five characters are CJK, in UTF-8.\<close>

definition progressMessage :: "nat \<Rightarrow> nat \<Rightarrow> string" where
  "progressMessage i len =
     [CHR 0xE5, CHR 0x8B, CHR 0x95, CHR 0xE7, CHR 0x94, CHR 0xBB, CHR 0xE7, CHR 0x94, CHR 0x9F,
      CHR 0xE6, CHR 0x88, CHR 0x90, CHR 0xE4, CHR 0xB8, CHR 0xAD]
     @ ''... '' @ toString (i + 1) @ ''/'' @ toString len"

subsection \<open>The loop over the slides\<close>

text \<open>
  \<open>slideLoop rt len i slides k\<close> is the \<^verbatim>\<open>for\<close> loop of lines 82 to 128 from index \<open>i\<close>
  on, \<open>slides\<close> being \<^verbatim>\<open>slides.slice(i)\<close>, \<open>len\<close> being \<^verbatim>\<open>slides.length\<close> and \<open>k\<close> the
  number of clock readings taken before. It gives the exception that left the loop, if
  any, and the calls made.
\<close>

fun slideLoop ::
  "Runtime \<Rightarrow> nat \<Rightarrow> nat \<Rightarrow> Slide list \<Rightarrow> nat \<Rightarrow> (error option \<times> call list) option" where
  "slideLoop rt len i [] k = Some (None, [])"
| "slideLoop rt len i (slide # rest) k =
     (let progress = OnProgress (progressMessage i len)
      in case audioBlob slide of
           None \<Rightarrow>
             map_option (apsnd ((#) progress)) (slideLoop rt len (i + 1) rest k)
         | Some blob \<Rightarrow>
             (case loadImage rt (imageUrl slide) of
                Inl e \<Rightarrow> Some (Some e, [progress, LoadImage (imageUrl slide)])
              | Inr img \<Rightarrow>
                  (case decodeAudio rt blob of
                     Inl e \<Rightarrow>
                       Some (Some e, [progress, LoadImage (imageUrl slide), DecodeAudioData blob])
                   | Inr audioBuffer \<Rightarrow>
                       (let duration = buffer_duration audioBuffer;
                            startTime = currentTime rt k;
                            endTime = startTime + duration
                        in do {
                          (k', frames) \<leftarrow> draw rt img endTime k;
                          (e, calls) \<leftarrow> slideLoop rt len (i + 1) rest k';
                          Some (e, [progress, LoadImage (imageUrl slide), DecodeAudioData blob,
                                    CreateBufferSource audioBuffer, Connect, SourceStart startTime]
                                   @ frames @ calls)
                        }))))"

subsection \<open>generateVideo\<close>

text \<open>
  The result is \<open>None\<close> when the promise never settles, and otherwise the rejection
  (\<open>Inl\<close>) or the resolved blob (\<open>Inr\<close>) together with the calls made until then.
\<close>

definition generateVideo :: "Runtime \<Rightarrow> Slide list \<Rightarrow> ((error + Blob) \<times> call list) option" where
  "generateVideo rt slides =
     (if \<not> getContext rt then Some (Inl NoCanvasContext, [GetContext2d])
      else
        (let (mimeType, probes) = detectMimeType (MediaRecorder rt);
             AudioContextClass =
               (case AudioContext rt of Some c \<Rightarrow> Some c | None \<Rightarrow> webkitAudioContext rt);
             calls = GetContext2d # probes
         in case AudioContextClass of
              None \<Rightarrow> Some (Inl TypeError, calls)
            | Some state \<Rightarrow>
                (let calls = calls @ [NewAudioContext]
                       @ (if state = suspended then [Resume] else [])
                       @ [CreateMediaStreamDestination]
                 in if \<not> captureStream rt then Some (Inl TypeError, calls)
                    else
                      (let calls = calls @ [CaptureStream FPS, NewMediaStream]
                       in case MediaRecorder rt of
                            None \<Rightarrow> Some (Inl TypeError, calls)
                          | Some AnyMediaRecorder \<Rightarrow>
                              if \<not> constructs AnyMediaRecorder mimeType
                              then Some (Inl NotSupportedError, calls)
                              else
                                (let calls = calls
                                       @ [NewMediaRecorder mimeType BITRATE, RecorderStart,
                                          SetFillStyle ''black'', FillRect 0 0 WIDTH HEIGHT]
                                 in case slideLoop rt (length slides) 0 slides 0 of
                                      None \<Rightarrow> None
                                    | Some (Some e, loop) \<Rightarrow> Some (Inl e, calls @ loop)
                                    | Some (None, loop) \<Rightarrow>
                                        (let chunks =
                                               [d. Some d \<leftarrow> dataavailable rt,
                                                   0 < length (blob_bytes d)];
                                             blob = \<lparr>blob_bytes = concat (map blob_bytes chunks),
                                                     blob_type = mimeType\<rparr>
                                         in Some (Inr blob,
                                                  calls @ loop
                                                  @ [SetTimeout 500, RecorderStop, NewBlob blob,
                                                     AudioCtxClose, StopTracks combinedStream,
                                                     StopTracks canvasStream])))))))"


section \<open>Auxiliary definitions\<close>

text \<open>The 44 bytes \<^verbatim>\<open>createWavHeader\<close> produces, as the thirteen stores it makes.\<close>

definition header_image :: "nat \<Rightarrow> nat \<Rightarrow> byte list" where
  "header_image n r =
     store (store (store (store (store (store (store (store (store (store (store (store (store
       (replicate 44 0)
       0 (map (\<lambda>c. of_nat (of_char c)) ''RIFF''))
       4 (uint_bytes 4 (36 + n) True))
       8 (map (\<lambda>c. of_nat (of_char c)) ''WAVE''))
       12 (map (\<lambda>c. of_nat (of_char c)) ''fmt ''))
       16 (uint_bytes 4 16 True))
       20 (uint_bytes 2 1 True))
       22 (uint_bytes 2 1 True))
       24 (uint_bytes 4 r True))
       28 (uint_bytes 4 (r * 2) True))
       32 (uint_bytes 2 2 True))
       34 (uint_bytes 2 16 True))
       36 (map (\<lambda>c. of_nat (of_char c)) ''data''))
       40 (uint_bytes 4 n True)"


text \<open>A table standing for \<^verbatim>\<open>atob\<close> on two inputs: \<^verbatim>\<open>atob('AQID')\<close> is the bytes 1, 2, 3.\<close>

definition atob_sample :: "string \<Rightarrow> nat list option" where
  "atob_sample s = (if s = ''AQID'' then Some [1, 2, 3] else if s = [] then Some [] else None)"

subsection \<open>Reading a log\<close>

fun isOnProgress :: "call \<Rightarrow> bool" where
  "isOnProgress (OnProgress msg) = True"
| "isOnProgress _ = False"


text \<open>The calls of the draw loop and of the loop over the slides.\<close>

fun isDrawCall :: "call \<Rightarrow> bool" where
  "isDrawCall (SetFillStyle s) = True"
| "isDrawCall (FillRect x y w h) = True"
| "isDrawCall (DrawImage img p) = True"
| "isDrawCall RequestAnimationFrame = True"
| "isDrawCall _ = False"

fun isLoopCall :: "call \<Rightarrow> bool" where
  "isLoopCall (OnProgress msg) = True"
| "isLoopCall (LoadImage src) = True"
| "isLoopCall (DecodeAudioData blob) = True"
| "isLoopCall (CreateBufferSource b) = True"
| "isLoopCall Connect = True"
| "isLoopCall (SourceStart t) = True"
| "isLoopCall c = isDrawCall c"




subsection \<open>The parts of a run\<close>



definition AudioContextClass :: "Runtime \<Rightarrow> AudioContextState option" where
  "AudioContextClass rt =
     (case AudioContext rt of Some c \<Rightarrow> Some c | None \<Rightarrow> webkitAudioContext rt)"

definition mimeTypeOf :: "Runtime \<Rightarrow> string" where
  "mimeTypeOf rt = fst (detectMimeType (MediaRecorder rt))"

text \<open>A host on which lines 9 to 57 of \<^verbatim>\<open>generateVideo\<close> throw nothing.\<close>

definition capable :: "Runtime \<Rightarrow> bool" where
  "capable rt =
     (getContext rt \<and> AudioContextClass rt \<noteq> None \<and> captureStream rt
      \<and> (case MediaRecorder rt of
            None \<Rightarrow> False
          | Some AnyMediaRecorder \<Rightarrow> constructs AnyMediaRecorder (mimeTypeOf rt)))"

text \<open>The calls of lines 9 to 79 on such a host, the blob of line 136, the calls of lines 131 to 145.\<close>

definition preamble :: "Runtime \<Rightarrow> call list" where
  "preamble rt =
     GetContext2d # snd (detectMimeType (MediaRecorder rt))
     @ [NewAudioContext]
     @ (if AudioContextClass rt = Some suspended then [Resume] else [])
     @ [CreateMediaStreamDestination, CaptureStream FPS, NewMediaStream,
        NewMediaRecorder (mimeTypeOf rt) BITRATE, RecorderStart,
        SetFillStyle ''black'', FillRect 0 0 WIDTH HEIGHT]"

definition outputBlob :: "Runtime \<Rightarrow> Blob" where
  "outputBlob rt =
     \<lparr>blob_bytes =
        concat (map blob_bytes [d. Some d \<leftarrow> dataavailable rt, 0 < length (blob_bytes d)]),
      blob_type = mimeTypeOf rt\<rparr>"

definition finish :: "Blob \<Rightarrow> call list" where
  "finish blob =
     [SetTimeout 500, RecorderStop, NewBlob blob, AudioCtxClose,
      StopTracks combinedStream, StopTracks canvasStream]"

subsection \<open>The negotiation, in the words of the specification\<close>

text \<open>What the host reports for a MIME type.\<close>

definition reports :: "Runtime \<Rightarrow> string \<Rightarrow> bool" where
  "reports rt t =
     (case MediaRecorder rt of
        None \<Rightarrow> False
      | Some AnyMediaRecorder \<Rightarrow>
          (case isTypeSupported AnyMediaRecorder of None \<Rightarrow> False | Some f \<Rightarrow> f t))"

text \<open>MP4 if reported; otherwise WebM with H.264 if reported; otherwise WebM with VP9.\<close>

definition negotiated :: "(string \<Rightarrow> bool) \<Rightarrow> string" where
  "negotiated reported =
     (if reported ''video/mp4'' then ''video/mp4''
      else if reported ''video/webm; codecs=h264'' then ''video/webm; codecs=h264''
      else ''video/webm; codecs=vp9'')"

subsection \<open>Sample inputs\<close>

text \<open>
  A host with every primitive, a recorder that reports H.264 in WebM only, one image that
  loads, audio that decodes to as many seconds as it has bytes, and an audio clock that
  advances half a second per task.
\<close>

definition host :: Runtime where
  "host =
     \<lparr>getContext = True,
      MediaRecorder =
        Some \<lparr>isTypeSupported = Some (\<lambda>t. t = ''video/webm; codecs=h264''),
              constructs = (\<lambda>t. True)\<rparr>,
      AudioContext = Some suspended,
      webkitAudioContext = None,
      captureStream = True,
      imageAt = (\<lambda>src. if src = ''a.png'' then Some \<lparr>width = 800, height = 600\<rparr> else None),
      decodeAudioData =
        (\<lambda>bs. if bs = [] then None else Some \<lparr>buffer_duration = of_nat (length bs)\<rparr>),
      currentTime = (\<lambda>k. of_nat k / 2),
      dataavailable =
        [None, Some \<lparr>blob_bytes = [], blob_type = ''''\<rparr>,
         Some \<lparr>blob_bytes = [1, 2], blob_type = ''video/webm''\<rparr>]\<rparr>"

definition slideOf :: "string \<Rightarrow> Blob option \<Rightarrow> rat \<Rightarrow> Slide" where
  "slideOf src audio d =
     \<lparr>slide_id = ''s'', pageIndex = 0,
      imageBlob = \<lparr>blob_bytes = [], blob_type = ''image/png''\<rparr>,
      imageUrl = src, script = '''', audioBlob = audio, audioUrl = None,
      duration = d, isProcessing = False, status = ready\<rparr>"

definition wav1 :: Blob where
  "wav1 = \<lparr>blob_bytes = [7], blob_type = ''audio/wav''\<rparr>"


section \<open>Properties of audioUtils.ts\<close>

subsection \<open>Stores and reads\<close>

lemma length_store: "length (store view offset bs) = length view"
  by (induction bs arbitrary: view offset) simp_all

lemma nth_store:
  "i < length view \<Longrightarrow>
   store view offset bs ! i =
     (if offset \<le> i \<and> i < offset + length bs then bs ! (i - offset) else view ! i)"
proof (induction bs arbitrary: view offset)
  case Nil
  then show ?case by auto
next
  case (Cons b bs)
  then show ?case
    by (auto simp: nth_list_update nth_Cons' Suc_diff_le not_less less_Suc_eq_le)
qed

lemma read_store_same:
  assumes "offset + length bs \<le> length view"
  shows "take (length bs) (drop offset (store view offset bs)) = bs"
  using assms by (intro nth_equalityI) (auto simp: length_store nth_store)

lemma read_store_other:
  assumes "p + k \<le> offset \<or> offset + length bs \<le> p"
  shows "take k (drop p (store view offset bs)) = take k (drop p view)"
proof (intro nth_equalityI)
  show "length (take k (drop p (store view offset bs))) = length (take k (drop p view))"
    by (simp add: length_store)
next
  fix i assume "i < length (take k (drop p (store view offset bs)))"
  then have "i < k" "p + i < length view" by (auto simp: length_store)
  then show "take k (drop p (store view offset bs)) ! i = take k (drop p view) ! i"
    using assms by (auto simp: length_store nth_store)
qed

subsection \<open>Little-endian fields\<close>

lemma uint_le_bytes: "uint_le (map (\<lambda>i. of_nat (v div 256 ^ i) :: byte) [0..<k]) = v mod 256 ^ k"
proof (induction k arbitrary: v)
  case 0
  then show ?case by simp
next
  case (Suc k)
  have "map (\<lambda>i. of_nat (v div 256 ^ i) :: byte) [0..<Suc k] =
        of_nat v # map (\<lambda>i. of_nat ((v div 256) div 256 ^ i)) [0..<k]"
    by (simp add: upt_conv_Cons map_Suc_upt [symmetric] div_mult2_eq del: upt_Suc)
  then show ?case
    using Suc [of "v div 256"] by (simp add: unat_of_nat mod_mult2_eq del: upt_Suc)
qed

lemma length_uint_bytes: "length (uint_bytes k v le) = k"
  by (simp add: uint_bytes_def Let_def)

lemma writeString_store:
  "offset + length s \<le> length view \<Longrightarrow>
   writeString view offset s = Some (store view offset (map (\<lambda>c. of_nat (of_char c)) s))"
  by (induction s arbitrary: view offset)
     (auto simp: setUint8_def setUint_def uint_bytes_def)

lemma read_store_same':
  "length bs = k \<Longrightarrow> offset + k \<le> length view \<Longrightarrow>
   take k (drop offset (store view offset bs)) = bs"
  using read_store_same by blast

lemma read_store_end:
  "length bs = k \<Longrightarrow> offset + k = length view \<Longrightarrow>
   drop offset (store view offset bs) = bs"
  using read_store_same' [of bs k offset view] by (simp add: length_store)

lemma take_store_other:
  "k \<le> offset \<Longrightarrow> take k (store view offset bs) = take k view"
  using read_store_other [of 0 k offset bs view] by simp

lemma take_store_same:
  "length bs = k \<Longrightarrow> k \<le> length view \<Longrightarrow> take k (store view 0 bs) = bs"
  using read_store_same' [of bs k 0 view] by simp

lemma uint_le_uint_bytes: "uint_le (uint_bytes k v True) = v mod 256 ^ k"
  by (simp add: uint_bytes_def uint_le_bytes)

subsection \<open>The header\<close>

lemma createWavHeader_image: "createWavHeader n r = Some (header_image n r)"
  by (simp add: createWavHeader_def header_image_def writeString_store setUint32_def
      setUint16_def setUint_def length_store length_uint_bytes mult.commute
      del: writeString.simps store.simps)

lemma length_header_image: "length (header_image n r) = 44"
  by (simp add: header_image_def length_store)

lemmas read_header = getUint_def header_image_def read_store_other read_store_same' read_store_end
  take_store_other take_store_same
  length_store length_uint_bytes uint_le_uint_bytes

lemma ChunkSize: "getUint 4 (header_image n r) 4 = (36 + n) mod 2 ^ 32"
  by (simp add: read_header del: store.simps)

lemma Subchunk2Size: "getUint 4 (header_image n r) 40 = n mod 2 ^ 32"
  by (simp add: read_header del: store.simps)

lemma ByteRate: "getUint 4 (header_image n r) 28 = (r * 2) mod 2 ^ 32"
  by (simp add: read_header del: store.simps)

lemma SampleRate: "getUint 4 (header_image n r) 24 = r mod 2 ^ 32"
  by (simp add: read_header del: store.simps)

lemma fmt_fields:
  "getUint 4 (header_image n r) 16 = 16"
  "getUint 2 (header_image n r) 20 = 1"
  "getUint 2 (header_image n r) 22 = 1"
  "getUint 2 (header_image n r) 32 = 2"
  "getUint 2 (header_image n r) 34 = 16"
  by (simp_all add: read_header del: store.simps)

lemma tags:
  "take 4 (header_image n r) = map (\<lambda>c. of_nat (of_char c)) ''RIFF''"
  "take 4 (drop 8 (header_image n r)) = map (\<lambda>c. of_nat (of_char c)) ''WAVE''"
  "take 4 (drop 12 (header_image n r)) = map (\<lambda>c. of_nat (of_char c)) ''fmt ''"
  "take 4 (drop 36 (header_image n r)) = map (\<lambda>c. of_nat (of_char c)) ''data''"
  by (simp_all add: read_header del: store.simps)

lemma getUint_header_append:
  "byteOffset + k \<le> 44 \<Longrightarrow>
   getUint k (header_image n r @ bytes) byteOffset = getUint k (header_image n r) byteOffset"
  by (simp add: getUint_def length_header_image)

lemma pcmToWav_image:
  "atob base64Pcm = Some binaryString \<Longrightarrow>
   pcmToWav atob base64Pcm sampleRate =
     Inr \<lparr>blob_bytes = header_image (length binaryString) sampleRate @ map of_nat binaryString,
          blob_type = ''audio/wav''\<rparr>"
  by (simp add: pcmToWav_def createWavHeader_image)

subsection \<open>C10: the blob pcmToWav returns\<close>

text \<open>
  C10. For a base64 string that \<^verbatim>\<open>atob\<close> decodes to \<open>n\<close> bytes, and for every sample
  rate, \<^verbatim>\<open>pcmToWav\<close> returns a blob of type \<^verbatim>\<open>audio/wav\<close> of exactly \<open>44 + n\<close> bytes, the
  header followed by the decoded bytes, whose format fields declare PCM (1), one channel,
  a block align of 2 and 16 bits per sample. The four 32-bit fields hold their values
  modulo \<open>2 ^ 32\<close>: if \<open>36 + n < 2 ^ 32\<close> the ChunkSize field is \<open>36 + n\<close> and the
  Subchunk2Size field is \<open>n\<close>, and if \<open>sampleRate * 2 < 2 ^ 32\<close> the SampleRate field is
  the sample rate and the ByteRate field is \<open>sampleRate * 2\<close>.
\<close>

theorem pcmToWav_wav_header:
  assumes "atob base64Pcm = Some binaryString"
  shows "\<exists>wav. pcmToWav atob base64Pcm sampleRate = Inr wav
           \<and> blob_type wav = ''audio/wav''
           \<and> length (blob_bytes wav) = 44 + length binaryString
           \<and> drop 44 (blob_bytes wav) = map of_nat binaryString
           \<and> getUint 2 (blob_bytes wav) 20 = 1
           \<and> getUint 2 (blob_bytes wav) 22 = 1
           \<and> getUint 2 (blob_bytes wav) 32 = 2
           \<and> getUint 2 (blob_bytes wav) 34 = 16
           \<and> getUint 4 (blob_bytes wav) 4 = (36 + length binaryString) mod 2 ^ 32
           \<and> getUint 4 (blob_bytes wav) 40 = length binaryString mod 2 ^ 32
           \<and> getUint 4 (blob_bytes wav) 24 = sampleRate mod 2 ^ 32
           \<and> getUint 4 (blob_bytes wav) 28 = (sampleRate * 2) mod 2 ^ 32
           \<and> (36 + length binaryString < 2 ^ 32 \<longrightarrow>
                 getUint 4 (blob_bytes wav) 4 = 36 + length binaryString
                 \<and> getUint 4 (blob_bytes wav) 40 = length binaryString)
           \<and> (sampleRate * 2 < 2 ^ 32 \<longrightarrow>
                 getUint 4 (blob_bytes wav) 24 = sampleRate
                 \<and> getUint 4 (blob_bytes wav) 28 = sampleRate * 2)"
  using assms
  by (simp add: pcmToWav_image getUint_header_append length_header_image
      ChunkSize Subchunk2Size SampleRate ByteRate fmt_fields)

theorem pcmToWav_wav_header_witness:
  "\<exists>wav. pcmToWav atob_sample ''AQID'' 24000 = Inr wav
           \<and> blob_type wav = ''audio/wav''
           \<and> length (blob_bytes wav) = 47
           \<and> drop 44 (blob_bytes wav) = [1, 2, 3]
           \<and> getUint 4 (blob_bytes wav) 4 = 39
           \<and> getUint 4 (blob_bytes wav) 40 = 3
           \<and> getUint 2 (blob_bytes wav) 20 = 1
           \<and> getUint 2 (blob_bytes wav) 22 = 1
           \<and> getUint 4 (blob_bytes wav) 24 = 24000
           \<and> getUint 4 (blob_bytes wav) 28 = 48000
           \<and> getUint 2 (blob_bytes wav) 32 = 2
           \<and> getUint 2 (blob_bytes wav) 34 = 16"
  using pcmToWav_wav_header [of atob_sample "''AQID''" "[1, 2, 3]" 24000]
  by (auto simp: atob_sample_def numeral_3_eq_3 [symmetric])

text \<open>
  C10 as stated, for every sample rate, fails: \<^verbatim>\<open>setUint32\<close> keeps the low 32 bits, so at
  a sample rate of \<open>2 ^ 31\<close> the SampleRate field holds \<open>2 ^ 31\<close> and the ByteRate field
  holds 0, not twice the sample rate.
\<close>

theorem pcmToWav_byteRate_counterexample:
  "\<not> isl (pcmToWav atob_sample ''AQID'' 2147483648)
   \<and> getUint 4 (blob_bytes (projr (pcmToWav atob_sample ''AQID'' 2147483648))) 24 = 2147483648
   \<and> getUint 4 (blob_bytes (projr (pcmToWav atob_sample ''AQID'' 2147483648))) 28 = 0
   \<and> getUint 4 (blob_bytes (projr (pcmToWav atob_sample ''AQID'' 2147483648))) 28
       \<noteq> 2147483648 * 2"
  by (simp add: pcmToWav_image [of atob_sample _ "[1, 2, 3]"] atob_sample_def
      getUint_header_append SampleRate ByteRate)


section \<open>Properties of videoService.ts\<close>

subsection \<open>The draw loop\<close>

lemma draw_Some:
  assumes "draw rt img endTime k = Some r"
  shows "\<exists>n. r = (k + n + 1, concat (replicate n (drawFrame img)))
           \<and> endTime \<le> currentTime rt (k + n)
           \<and> (\<forall>j<n. currentTime rt (k + j) < endTime)"
proof (rule draw.raw_induct
    [where P = "\<lambda>rt img endTime k r.
        \<exists>n. r = (k + n + 1, concat (replicate n (drawFrame img)))
          \<and> endTime \<le> currentTime rt (k + n)
          \<and> (\<forall>j<n. currentTime rt (k + j) < endTime)", OF _ assms])
  fix draw' rt img endTime k r
  assume IH: "\<And>rt img endTime k r. draw' rt img endTime k = Some r \<Longrightarrow>
      \<exists>n. r = (k + n + 1, concat (replicate n (drawFrame img)))
        \<and> endTime \<le> currentTime rt (k + n)
        \<and> (\<forall>j<n. currentTime rt (k + j) < endTime)"
    and body: "(let now = currentTime rt k
      in if endTime \<le> now then Some (k + 1, [])
         else Option.bind (draw' rt img endTime (k + 1))
                (\<lambda>(k', calls). Some (k', drawFrame img @ calls))) = Some r"
  show "\<exists>n. r = (k + n + 1, concat (replicate n (drawFrame img)))
          \<and> endTime \<le> currentTime rt (k + n)
          \<and> (\<forall>j<n. currentTime rt (k + j) < endTime)"
  proof (cases "endTime \<le> currentTime rt k")
    case True
    with body have "r = (k + 0 + 1, concat (replicate 0 (drawFrame img)))"
      by (simp add: Let_def)
    with True show ?thesis by (intro exI [of _ 0]) simp
  next
    case False
    with body obtain r' where r': "draw' rt img endTime (k + 1) = Some r'"
      and r: "r = (fst r', drawFrame img @ snd r')"
      by (auto simp: Let_def bind_eq_Some_conv split: prod.splits)
    from IH [OF r'] obtain n where n: "r' = (k + 1 + n + 1, concat (replicate n (drawFrame img)))"
      "endTime \<le> currentTime rt (k + 1 + n)" "\<forall>j<n. currentTime rt (k + 1 + j) < endTime"
      by blast
    have "\<forall>j<Suc n. currentTime rt (k + j) < endTime"
    proof (intro allI impI)
      fix j assume "j < Suc n"
      then show "currentTime rt (k + j) < endTime"
        using False n(3) by (cases j) (auto simp: not_le)
    qed
    with r n show ?thesis
      by (intro exI [of _ "Suc n"]) simp
  qed
qed


subsection \<open>One iteration of the loop over the slides\<close>

lemma slideLoop_ConsE:
  assumes "slideLoop rt len i (slide # rest) k = Some (e, calls)"
  obtains
    (skip) calls' where
      "audioBlob slide = None"
      "slideLoop rt len (i + 1) rest k = Some (e, calls')"
      "calls = OnProgress (progressMessage i len) # calls'"
  | (image) blob where
      "audioBlob slide = Some blob"
      "imageAt rt (imageUrl slide) = None"
      "e = Some ImageLoadError"
      "calls = [OnProgress (progressMessage i len), LoadImage (imageUrl slide)]"
  | (audio) blob img where
      "audioBlob slide = Some blob"
      "imageAt rt (imageUrl slide) = Some img"
      "decodeAudioData rt (blob_bytes blob) = None"
      "e = Some EncodingError"
      "calls = [OnProgress (progressMessage i len), LoadImage (imageUrl slide),
                DecodeAudioData blob]"
  | (play) blob img audioBuffer n calls' where
      "audioBlob slide = Some blob"
      "imageAt rt (imageUrl slide) = Some img"
      "decodeAudioData rt (blob_bytes blob) = Some audioBuffer"
      "currentTime rt k + buffer_duration audioBuffer \<le> currentTime rt (k + n)"
      "\<forall>j<n. currentTime rt (k + j) < currentTime rt k + buffer_duration audioBuffer"
      "slideLoop rt len (i + 1) rest (k + n + 1) = Some (e, calls')"
      "calls = [OnProgress (progressMessage i len), LoadImage (imageUrl slide),
                DecodeAudioData blob, CreateBufferSource audioBuffer, Connect,
                SourceStart (currentTime rt k)]
               @ concat (replicate n (drawFrame img)) @ calls'"
proof (cases "audioBlob slide")
  case None
  with assms skip show ?thesis by auto
next
  case (Some blob)
  note blob = this
  show ?thesis
  proof (cases "imageAt rt (imageUrl slide)")
    case None
    with assms blob image show ?thesis by (auto simp: loadImage_def)
  next
    case (Some img)
    note img = this
    show ?thesis
    proof (cases "decodeAudioData rt (blob_bytes blob)")
      case None
      with assms blob img audio show ?thesis by (auto simp: loadImage_def decodeAudio_def)
    next
      case (Some audioBuffer)
      with assms blob img obtain k' frames calls' where
        d: "draw rt img (currentTime rt k + buffer_duration audioBuffer) k = Some (k', frames)"
        and r: "slideLoop rt len (i + 1) rest k' = Some (e, calls')"
        and c: "calls = [OnProgress (progressMessage i len), LoadImage (imageUrl slide),
                DecodeAudioData blob, CreateBufferSource audioBuffer, Connect,
                SourceStart (currentTime rt k)] @ frames @ calls'"
        by (auto simp: loadImage_def decodeAudio_def Let_def bind_eq_Some_conv)
      from draw_Some [OF d] obtain n where
        "k' = k + n + 1" "frames = concat (replicate n (drawFrame img))"
        "currentTime rt k + buffer_duration audioBuffer \<le> currentTime rt (k + n)"
        "\<forall>j<n. currentTime rt (k + j) < currentTime rt k + buffer_duration audioBuffer"
        by auto
      with blob img Some r c play show ?thesis by blast
    qed
  qed
qed

subsection \<open>The log of the loop\<close>

lemma isLoopCall_drawFrame: "list_all isLoopCall (concat (replicate n (drawFrame img)))"
  by (induction n) (simp_all add: drawFrame_def)




lemma slideLoop_isLoopCall:
  "slideLoop rt len i slides k = Some (e, calls) \<Longrightarrow> list_all isLoopCall calls"
proof (induction slides arbitrary: i k e calls)
  case Nil
  then show ?case by simp
next
  case (Cons slide rest)
  from Cons.prems show ?case
  proof (cases rule: slideLoop_ConsE)
    case (skip calls')
    with Cons.IH show ?thesis by simp
  next
    case (image blob)
    then show ?thesis by simp
  next
    case (audio blob img)
    then show ?thesis by simp
  next
    case (play blob img audioBuffer n calls')
    with Cons.IH [OF play(6)] show ?thesis by (simp add: isLoopCall_drawFrame)
  qed
qed




subsection \<open>What the loop does not depend on\<close>




lemma slideLoop_duration:
  "list_all2 (\<lambda>a b. \<exists>d. b = a\<lparr>duration := d\<rparr>) xs ys \<Longrightarrow>
   slideLoop rt len i xs k = slideLoop rt len i ys k"
proof (induction xs ys arbitrary: i k rule: list_all2_induct)
  case Nil
  show ?case by simp
next
  case (Cons x xs y ys)
  then obtain d where "y = x\<lparr>duration := d\<rparr>" by blast
  with Cons.IH show ?case
    by (simp add: Let_def cong: option.case_cong sum.case_cong)
qed

subsection \<open>Runs\<close>


lemma generateVideo_capable:
  assumes "capable rt"
  shows "generateVideo rt slides =
     (case slideLoop rt (length slides) 0 slides 0 of
        None \<Rightarrow> None
      | Some (Some e, loop) \<Rightarrow> Some (Inl e, preamble rt @ loop)
      | Some (None, loop) \<Rightarrow>
          Some (Inr (outputBlob rt), preamble rt @ loop @ finish (outputBlob rt)))"
proof -
  from assms obtain st AnyMediaRecorder where
    c: "getContext rt" "captureStream rt"
    and st: "(case AudioContext rt of Some c \<Rightarrow> Some c | None \<Rightarrow> webkitAudioContext rt) = Some st"
    and mr: "MediaRecorder rt = Some AnyMediaRecorder"
    and ok: "constructs AnyMediaRecorder (fst (detectMimeType (Some AnyMediaRecorder)))"
    by (auto simp: capable_def AudioContextClass_def mimeTypeOf_def split: option.splits)
  show ?thesis
    unfolding generateVideo_def preamble_def outputBlob_def finish_def mimeTypeOf_def
      AudioContextClass_def
    by (simp add: c st mr ok Let_def split_def split: option.split)
qed

lemma probes_detectMimeType: "set (snd (detectMimeType M)) \<subseteq> range IsTypeSupported"
  by (auto simp: detectMimeType_def probe_def split: option.splits prod.splits)

lemma generateVideo_incapable:
  assumes "\<not> capable rt"
  shows "\<exists>e calls. generateVideo rt slides = Some (Inl e, calls)
     \<and> set calls \<subseteq> {GetContext2d, NewAudioContext, Resume, CreateMediaStreamDestination,
                      CaptureStream FPS, NewMediaStream} \<union> range IsTypeSupported"
proof -
  let ?early = "{GetContext2d, NewAudioContext, Resume, CreateMediaStreamDestination,
                 CaptureStream FPS, NewMediaStream} \<union> range IsTypeSupported"
  let ?st = "case AudioContext rt of Some c \<Rightarrow> Some c | None \<Rightarrow> webkitAudioContext rt"
  note probes = probes_detectMimeType [of "MediaRecorder rt"]
  consider (ctx) "\<not> getContext rt"
    | (audio) "getContext rt" "?st = None"
    | (capture) st where "getContext rt" "?st = Some st" "\<not> captureStream rt"
    | (recorder) st where "getContext rt" "?st = Some st" "captureStream rt"
        "MediaRecorder rt = None"
    | (mime) st AnyMediaRecorder where "getContext rt" "?st = Some st" "captureStream rt"
        "MediaRecorder rt = Some AnyMediaRecorder"
        "\<not> constructs AnyMediaRecorder (fst (detectMimeType (Some AnyMediaRecorder)))"
    using assms
    by (auto simp: capable_def AudioContextClass_def mimeTypeOf_def split: option.splits)
  then show ?thesis
  proof cases
    case ctx
    then show ?thesis by (simp add: generateVideo_def)
  next
    case audio
    then have "generateVideo rt slides =
        Some (Inl TypeError, GetContext2d # snd (detectMimeType (MediaRecorder rt)))"
      by (simp add: generateVideo_def Let_def split_def)
    with probes show ?thesis by auto
  next
    case (capture st)
    then have "generateVideo rt slides =
        Some (Inl TypeError, (GetContext2d # snd (detectMimeType (MediaRecorder rt)))
          @ [NewAudioContext] @ (if st = suspended then [Resume] else [])
          @ [CreateMediaStreamDestination])"
      by (simp add: generateVideo_def Let_def split_def)
    with probes show ?thesis by auto
  next
    case (recorder st)
    then have "generateVideo rt slides =
        Some (Inl TypeError, ((GetContext2d # snd (detectMimeType (MediaRecorder rt)))
          @ [NewAudioContext] @ (if st = suspended then [Resume] else [])
          @ [CreateMediaStreamDestination]) @ [CaptureStream FPS, NewMediaStream])"
      by (simp add: generateVideo_def Let_def split_def)
    with probes show ?thesis by auto
  next
    case (mime st AnyMediaRecorder)
    then have "generateVideo rt slides =
        Some (Inl NotSupportedError, ((GetContext2d # snd (detectMimeType (MediaRecorder rt)))
          @ [NewAudioContext] @ (if st = suspended then [Resume] else [])
          @ [CreateMediaStreamDestination]) @ [CaptureStream FPS, NewMediaStream])"
      by (simp add: generateVideo_def Let_def split_def)
    with probes show ?thesis by auto
  qed
qed

lemma generateVideo_SomeE:
  assumes "generateVideo rt slides = Some (out, calls)"
  obtains
    (incapable) e where
      "\<not> capable rt" "out = Inl e"
      "set calls \<subseteq> {GetContext2d, NewAudioContext, Resume, CreateMediaStreamDestination,
                       CaptureStream FPS, NewMediaStream} \<union> range IsTypeSupported"
  | (aborted) e loop where
      "capable rt" "slideLoop rt (length slides) 0 slides 0 = Some (Some e, loop)"
      "out = Inl e" "calls = preamble rt @ loop"
  | (resolved) loop where
      "capable rt" "slideLoop rt (length slides) 0 slides 0 = Some (None, loop)"
      "out = Inr (outputBlob rt)" "calls = preamble rt @ loop @ finish (outputBlob rt)"
proof (cases "capable rt")
  case False
  from generateVideo_incapable [OF False, of slides] assms incapable [OF False]
  show ?thesis by auto
next
  case True
  from assms generateVideo_capable [OF True, of slides] aborted [OF True] resolved [OF True]
  show ?thesis
    by (auto split: option.splits prod.splits)
qed

lemma preamble_calls:
  "set (preamble rt) \<subseteq>
     {GetContext2d, NewAudioContext, Resume, CreateMediaStreamDestination,
      CaptureStream FPS, NewMediaStream, NewMediaRecorder (mimeTypeOf rt) BITRATE,
      RecorderStart, SetFillStyle ''black'', FillRect 0 0 WIDTH HEIGHT}
     \<union> range IsTypeSupported"
  using probes_detectMimeType [of "MediaRecorder rt"] by (auto simp: preamble_def)

subsection \<open>Where the recorder calls can occur\<close>

lemma no_start_in_setup:
  "set calls \<subseteq> {GetContext2d, NewAudioContext, Resume, CreateMediaStreamDestination,
                   CaptureStream FPS, NewMediaStream} \<union> range IsTypeSupported \<Longrightarrow>
   RecorderStart \<notin> set calls \<and> RecorderStop \<notin> set calls
   \<and> (\<forall>mimeType bits. NewMediaRecorder mimeType bits \<notin> set calls)
   \<and> (\<forall>blob. NewBlob blob \<notin> set calls)
   \<and> (\<forall>n. SetTimeout n \<notin> set calls)
   \<and> \<not> list_ex isOnProgress calls"
  by (auto simp: list_ex_iff)


lemma no_stop_in_loop:
  assumes "list_all isLoopCall loop"
  shows "RecorderStop \<notin> set loop \<and> (\<forall>blob. NewBlob blob \<notin> set loop)
         \<and> (\<forall>n. SetTimeout n \<notin> set loop) \<and> AudioCtxClose \<notin> set loop
         \<and> (\<forall>s. StopTracks s \<notin> set loop)"
proof -
  from assms have "\<And>c. c \<in> set loop \<Longrightarrow> isLoopCall c"
    by (simp add: list_all_iff)
  then show ?thesis by fastforce
qed

lemma no_stop_in_preamble:
  "RecorderStop \<notin> set (preamble rt) \<and> (\<forall>blob. NewBlob blob \<notin> set (preamble rt))
   \<and> (\<forall>n. SetTimeout n \<notin> set (preamble rt)) \<and> AudioCtxClose \<notin> set (preamble rt)
   \<and> (\<forall>s. StopTracks s \<notin> set (preamble rt))"
  using preamble_calls [of rt] by auto


lemma rejected_run_releases_nothing:
  assumes "generateVideo rt slides = Some (Inl e, calls)"
  shows "AudioCtxClose \<notin> set calls \<and> (\<forall>s. StopTracks s \<notin> set calls)
         \<and> RecorderStop \<notin> set calls"
  using assms
proof (cases rule: generateVideo_SomeE)
  case (incapable e)
  then show ?thesis by auto
next
  case (aborted e loop)
  with no_stop_in_loop [OF slideLoop_isLoopCall [OF aborted(2)]] no_stop_in_preamble [of rt]
  show ?thesis by simp
next
  case (resolved loop)
  then show ?thesis by simp
qed


subsection \<open>Progress messages\<close>







subsection \<open>The aspect ratio fit\<close>






subsection \<open>Slides and the rest of a run\<close>







section \<open>The claims about videoService.ts\<close>

subsection \<open>Runs on the sample host\<close>

lemmas run_host = generateVideo_def host_def slideOf_def wav1_def detectMimeType_def probe_def
  loadImage_def decodeAudio_def draw.simps drawFrame_def fit_def
  WIDTH_def HEIGHT_def FPS_def BITRATE_def

lemma host_empty_run:
  "generateVideo host [] =
     Some (Inr \<lparr>blob_bytes = [1, 2], blob_type = ''video/webm; codecs=h264''\<rparr>,
           [GetContext2d, IsTypeSupported ''video/mp4'',
            IsTypeSupported ''video/webm; codecs=h264'', NewAudioContext, Resume,
            CreateMediaStreamDestination, CaptureStream 30, NewMediaStream,
            NewMediaRecorder ''video/webm; codecs=h264'' 8000000, RecorderStart,
            SetFillStyle ''black'', FillRect 0 0 1920 1080, SetTimeout 500, RecorderStop,
            NewBlob \<lparr>blob_bytes = [1, 2], blob_type = ''video/webm; codecs=h264''\<rparr>,
            AudioCtxClose, StopTracks combinedStream, StopTracks canvasStream])"
  by (simp add: run_host Let_def)








subsection \<open>C3: MIME type negotiation\<close>

lemma detectMimeType_negotiated: "fst (detectMimeType (MediaRecorder rt)) = negotiated (reports rt)"
  by (simp add: detectMimeType_def probe_def negotiated_def reports_def split_def Let_def
      split: option.splits)

lemma detectMimeType_probes:
  "snd (detectMimeType (MediaRecorder rt)) =
     (case MediaRecorder rt of
        None \<Rightarrow> []
      | Some AnyMediaRecorder \<Rightarrow>
          (case isTypeSupported AnyMediaRecorder of
             None \<Rightarrow> []
           | Some f \<Rightarrow>
               if f ''video/mp4'' then [IsTypeSupported ''video/mp4'']
               else [IsTypeSupported ''video/mp4'', IsTypeSupported ''video/webm; codecs=h264'']))"
  by (simp add: detectMimeType_def probe_def split_def Let_def split: option.splits)

text \<open>
  C3. The MIME type \<^verbatim>\<open>generateVideo\<close> selects is the negotiated one: \<^verbatim>\<open>video/mp4\<close> if the
  host reports it, otherwise \<^verbatim>\<open>video/webm; codecs=h264\<close> if the host reports that,
  otherwise \<^verbatim>\<open>video/webm; codecs=vp9\<close>. The probes are made in that order: MP4 first,
  H.264 only after MP4 was not reported, VP9 never. Every recorder a run constructs is
  configured with the selected type, and a blob the run resolves with has that type.
\<close>

theorem mime_negotiation:
  "fst (detectMimeType (MediaRecorder rt)) = negotiated (reports rt)
   \<and> snd (detectMimeType (MediaRecorder rt)) =
       (case MediaRecorder rt of
          None \<Rightarrow> []
        | Some AnyMediaRecorder \<Rightarrow>
            (case isTypeSupported AnyMediaRecorder of
               None \<Rightarrow> []
             | Some f \<Rightarrow>
                 if f ''video/mp4'' then [IsTypeSupported ''video/mp4'']
                 else [IsTypeSupported ''video/mp4'',
                       IsTypeSupported ''video/webm; codecs=h264'']))
   \<and> (generateVideo rt slides = Some (out, calls) \<longrightarrow>
        (\<forall>mimeType bits. NewMediaRecorder mimeType bits \<in> set calls \<longrightarrow>
           mimeType = negotiated (reports rt))
        \<and> (\<forall>blob. out = Inr blob \<longrightarrow>
              blob_type blob = negotiated (reports rt)
              \<and> NewMediaRecorder (negotiated (reports rt)) BITRATE \<in> set calls))"
proof (intro conjI impI)
  show "fst (detectMimeType (MediaRecorder rt)) = negotiated (reports rt)"
    by (rule detectMimeType_negotiated)
  show "snd (detectMimeType (MediaRecorder rt)) =
       (case MediaRecorder rt of
          None \<Rightarrow> []
        | Some AnyMediaRecorder \<Rightarrow>
            (case isTypeSupported AnyMediaRecorder of
               None \<Rightarrow> []
             | Some f \<Rightarrow>
                 if f ''video/mp4'' then [IsTypeSupported ''video/mp4'']
                 else [IsTypeSupported ''video/mp4'',
                       IsTypeSupported ''video/webm; codecs=h264'']))"
    by (rule detectMimeType_probes)
next
  assume run: "generateVideo rt slides = Some (out, calls)"
  have m: "mimeTypeOf rt = negotiated (reports rt)"
    by (simp add: mimeTypeOf_def detectMimeType_negotiated)
  from run show "\<forall>mimeType bits. NewMediaRecorder mimeType bits \<in> set calls \<longrightarrow>
           mimeType = negotiated (reports rt)"
  proof (cases rule: generateVideo_SomeE)
    case (incapable e)
    then show ?thesis by auto
  next
    case (aborted e loop)
    from slideLoop_isLoopCall [OF aborted(2)] have "\<And>c. c \<in> set loop \<Longrightarrow> isLoopCall c"
      by (simp add: list_all_iff)
    then have "\<And>t b. NewMediaRecorder t b \<notin> set loop" by fastforce
    with aborted preamble_calls [of rt] m show ?thesis by auto
  next
    case (resolved loop)
    from slideLoop_isLoopCall [OF resolved(2)] have "\<And>c. c \<in> set loop \<Longrightarrow> isLoopCall c"
      by (simp add: list_all_iff)
    then have "\<And>t b. NewMediaRecorder t b \<notin> set loop" by fastforce
    with resolved preamble_calls [of rt] m show ?thesis by (auto simp: finish_def)
  qed
  from run show "\<forall>blob. out = Inr blob \<longrightarrow>
              blob_type blob = negotiated (reports rt)
              \<and> NewMediaRecorder (negotiated (reports rt)) BITRATE \<in> set calls"
  proof (cases rule: generateVideo_SomeE)
    case (incapable e)
    then show ?thesis by simp
  next
    case (aborted e loop)
    then show ?thesis by simp
  next
    case (resolved loop)
    with m show ?thesis by (simp add: outputBlob_def preamble_def)
  qed
qed

theorem mime_negotiation_witness:
  "fst (detectMimeType (MediaRecorder host)) = ''video/webm; codecs=h264''
   \<and> snd (detectMimeType (MediaRecorder host)) =
       [IsTypeSupported ''video/mp4'', IsTypeSupported ''video/webm; codecs=h264'']
   \<and> (\<exists>blob calls. generateVideo host [] = Some (Inr blob, calls)
        \<and> blob_type blob = ''video/webm; codecs=h264''
        \<and> NewMediaRecorder ''video/webm; codecs=h264'' BITRATE \<in> set calls
        \<and> (\<forall>mimeType bits. NewMediaRecorder mimeType bits \<in> set calls \<longrightarrow>
              mimeType = ''video/webm; codecs=h264''))"
proof -
  have n: "negotiated (reports host) = ''video/webm; codecs=h264''"
    by (simp add: negotiated_def reports_def host_def)
  note run = host_empty_run
  from mime_negotiation [of host "[]" "Inr \<lparr>blob_bytes = [1, 2], blob_type = ''video/webm; codecs=h264''\<rparr>"] n run show ?thesis
    by (simp add: host_def BITRATE_def)
qed


subsection \<open>C6: capability errors\<close>

text \<open>
  C6. If the 2d context cannot be acquired, or an audio context class, \<^verbatim>\<open>captureStream\<close>
  or \<^verbatim>\<open>MediaRecorder\<close> is missing, \<^verbatim>\<open>generateVideo\<close> rejects, and by then no recorder
  was constructed or started, no blob was made and no progress was reported. Without a
  2d context the rejection is the \<^verbatim>\<open>Error('No canvas context')\<close> of line 19, thrown
  right after \<^verbatim>\<open>getContext\<close>.
\<close>

theorem capability_error_rejects_before_recording:
  assumes "\<not> getContext rt \<or> AudioContextClass rt = None \<or> \<not> captureStream rt
           \<or> MediaRecorder rt = None"
  shows "\<exists>e calls. generateVideo rt slides = Some (Inl e, calls)
           \<and> RecorderStart \<notin> set calls
           \<and> (\<forall>mimeType bits. NewMediaRecorder mimeType bits \<notin> set calls)
           \<and> (\<forall>blob. NewBlob blob \<notin> set calls)
           \<and> \<not> list_ex isOnProgress calls
           \<and> (\<not> getContext rt \<longrightarrow> e = NoCanvasContext \<and> calls = [GetContext2d])"
proof -
  from assms have "\<not> capable rt"
    by (auto simp: capable_def)
  from generateVideo_incapable [OF this, of slides] obtain e calls where
    run: "generateVideo rt slides = Some (Inl e, calls)"
    and calls: "set calls \<subseteq> {GetContext2d, NewAudioContext, Resume,
        CreateMediaStreamDestination, CaptureStream FPS, NewMediaStream} \<union> range IsTypeSupported"
    by blast
  have "\<not> getContext rt \<longrightarrow> e = NoCanvasContext \<and> calls = [GetContext2d]"
    using run by (auto simp: generateVideo_def)
  with run no_start_in_setup [OF calls] show ?thesis by blast
qed

theorem capability_error_rejects_before_recording_witness:
  "generateVideo (host\<lparr>getContext := False\<rparr>) [slideOf ''a.png'' (Some wav1) 0] =
     Some (Inl NoCanvasContext, [GetContext2d])
   \<and> (\<exists>e calls. generateVideo (host\<lparr>MediaRecorder := None\<rparr>) [slideOf ''a.png'' (Some wav1) 0] =
          Some (Inl e, calls) \<and> RecorderStart \<notin> set calls)
   \<and> (\<exists>e calls. generateVideo (host\<lparr>captureStream := False\<rparr>) [slideOf ''a.png'' (Some wav1) 0] =
          Some (Inl e, calls) \<and> RecorderStart \<notin> set calls)"
proof (intro conjI)
  let ?slides = "[slideOf ''a.png'' (Some wav1) 0]"
  from capability_error_rejects_before_recording [of "host\<lparr>getContext := False\<rparr>" ?slides]
  show "generateVideo (host\<lparr>getContext := False\<rparr>) ?slides =
     Some (Inl NoCanvasContext, [GetContext2d])"
    by (auto simp: host_def)
  from capability_error_rejects_before_recording [of "host\<lparr>MediaRecorder := None\<rparr>" ?slides]
  show "\<exists>e calls. generateVideo (host\<lparr>MediaRecorder := None\<rparr>) ?slides =
          Some (Inl e, calls) \<and> RecorderStart \<notin> set calls"
    by (auto simp: host_def)
  from capability_error_rejects_before_recording [of "host\<lparr>captureStream := False\<rparr>" ?slides]
  show "\<exists>e calls. generateVideo (host\<lparr>captureStream := False\<rparr>) ?slides =
          Some (Inl e, calls) \<and> RecorderStart \<notin> set calls"
    by (auto simp: host_def)
qed


subsection \<open>C7: the trailing buffer\<close>




subsection \<open>C9: the empty slide sequence\<close>

text \<open>
  C9. On a host where the setup throws nothing, the empty slide sequence resolves: the
  log is the setup, the start of the recorder, the black frame, the 500 ms timeout, the
  stop, the blob and the cleanup. \<^verbatim>\<open>onProgress\<close> is never called and nothing else is
  drawn or played.
\<close>

theorem empty_sequence_resolves:
  assumes "capable rt"
  shows "\<exists>blob calls. generateVideo rt [] = Some (Inr blob, calls)
           \<and> calls =
               GetContext2d # snd (detectMimeType (MediaRecorder rt))
               @ [NewAudioContext]
               @ (if AudioContextClass rt = Some suspended then [Resume] else [])
               @ [CreateMediaStreamDestination, CaptureStream 30, NewMediaStream,
                  NewMediaRecorder (mimeTypeOf rt) 8000000, RecorderStart,
                  SetFillStyle ''black'', FillRect 0 0 1920 1080,
                  SetTimeout 500, RecorderStop, NewBlob blob, AudioCtxClose,
                  StopTracks combinedStream, StopTracks canvasStream]
           \<and> blob = outputBlob rt
           \<and> blob_type blob = mimeTypeOf rt
           \<and> \<not> list_ex isOnProgress calls"
proof -
  have run: "generateVideo rt [] =
      Some (Inr (outputBlob rt), preamble rt @ finish (outputBlob rt))"
    using generateVideo_capable [OF assms, of "[]"] by simp
  have "\<not> list_ex isOnProgress (preamble rt @ finish (outputBlob rt))"
    using preamble_calls [of rt] by (auto simp: list_ex_iff finish_def)
  moreover have "preamble rt @ finish (outputBlob rt) =
      GetContext2d # snd (detectMimeType (MediaRecorder rt))
      @ [NewAudioContext]
      @ (if AudioContextClass rt = Some suspended then [Resume] else [])
      @ [CreateMediaStreamDestination, CaptureStream 30, NewMediaStream,
         NewMediaRecorder (mimeTypeOf rt) 8000000, RecorderStart,
         SetFillStyle ''black'', FillRect 0 0 1920 1080,
         SetTimeout 500, RecorderStop, NewBlob (outputBlob rt), AudioCtxClose,
         StopTracks combinedStream, StopTracks canvasStream]"
    by (simp add: preamble_def finish_def FPS_def BITRATE_def WIDTH_def HEIGHT_def)
  moreover have "blob_type (outputBlob rt) = mimeTypeOf rt"
    by (simp add: outputBlob_def)
  ultimately show ?thesis
    using run by (metis (no_types, lifting))
qed

theorem empty_sequence_resolves_witness:
  "capable host
   \<and> generateVideo host [] =
       Some (Inr \<lparr>blob_bytes = [1, 2], blob_type = ''video/webm; codecs=h264''\<rparr>,
             [GetContext2d, IsTypeSupported ''video/mp4'',
              IsTypeSupported ''video/webm; codecs=h264'', NewAudioContext, Resume,
              CreateMediaStreamDestination, CaptureStream 30, NewMediaStream,
              NewMediaRecorder ''video/webm; codecs=h264'' 8000000, RecorderStart,
              SetFillStyle ''black'', FillRect 0 0 1920 1080, SetTimeout 500, RecorderStop,
              NewBlob \<lparr>blob_bytes = [1, 2], blob_type = ''video/webm; codecs=h264''\<rparr>,
              AudioCtxClose, StopTracks combinedStream, StopTracks canvasStream])"
proof -
  have c: "capable host"
    by (simp add: capable_def AudioContextClass_def mimeTypeOf_def host_def)
  have "snd (detectMimeType (MediaRecorder host)) =
      [IsTypeSupported ''video/mp4'', IsTypeSupported ''video/webm; codecs=h264'']"
    "mimeTypeOf host = ''video/webm; codecs=h264''"
    "AudioContextClass host = Some suspended"
    "outputBlob host = \<lparr>blob_bytes = [1, 2], blob_type = ''video/webm; codecs=h264''\<rparr>"
    by (simp_all add: detectMimeType_def probe_def mimeTypeOf_def AudioContextClass_def
        outputBlob_def host_def)
  with empty_sequence_resolves [OF c] c show ?thesis by simp
qed


subsection \<open>C2: release of resources\<close>

text \<open>
  C2. The claim is that the audio context and the stream tracks are released on every
  path. Here the second of three slides has an image that fails to load: the run rejects
  with the audio context created, the streams captured and the recorder started, and its
  log ends with the failed load; there is no \<open>AudioCtxClose\<close>, no \<open>StopTracks\<close> and no
  \<open>RecorderStop\<close>. The cleanup of lines 139 to 141 is made on the resolving path only.
\<close>

theorem image_failure_leaves_resources_open:
  "generateVideo host
     [slideOf ''a.png'' (Some wav1) 0, slideOf ''b.png'' (Some wav1) 0,
      slideOf ''a.png'' (Some wav1) 0] =
   Some (Inl ImageLoadError,
         [GetContext2d, IsTypeSupported ''video/mp4'',
          IsTypeSupported ''video/webm; codecs=h264'', NewAudioContext, Resume,
          CreateMediaStreamDestination, CaptureStream 30, NewMediaStream,
          NewMediaRecorder ''video/webm; codecs=h264'' 8000000, RecorderStart,
          SetFillStyle ''black'', FillRect 0 0 1920 1080,
          OnProgress (progressMessage 0 3),
          LoadImage ''a.png'',
          DecodeAudioData \<lparr>blob_bytes = [7], blob_type = ''audio/wav''\<rparr>,
          CreateBufferSource \<lparr>buffer_duration = 1\<rparr>, Connect, SourceStart 0,
          SetFillStyle ''black'', FillRect 0 0 1920 1080,
          DrawImage \<lparr>width = 800, height = 600\<rparr> (Some (240, 0, 1440, 1080)),
          RequestAnimationFrame,
          SetFillStyle ''black'', FillRect 0 0 1920 1080,
          DrawImage \<lparr>width = 800, height = 600\<rparr> (Some (240, 0, 1440, 1080)),
          RequestAnimationFrame,
          OnProgress (progressMessage 1 3),
          LoadImage ''b.png''])"
  by (simp add: run_host Let_def numeral_3_eq_3)


subsection \<open>C5: the duration field\<close>

text \<open>
  C5. \<^verbatim>\<open>generateVideo\<close> never reads the \<^verbatim>\<open>duration\<close> field of a slide: two slide
  sequences that differ only in their \<^verbatim>\<open>duration\<close> fields give the same result and the
  same log, on every host. How long a slide is shown is decided by the buffer its audio
  decodes to during the run.
\<close>

theorem duration_field_is_ignored:
  assumes "list_all2 (\<lambda>a b. \<exists>d. b = a\<lparr>duration := d\<rparr>) xs ys"
  shows "generateVideo rt xs = generateVideo rt ys"
proof -
  from assms have "length xs = length ys"
    by (rule list_all2_lengthD)
  with slideLoop_duration [OF assms] have
    loop: "slideLoop rt (length xs) 0 xs 0 = slideLoop rt (length ys) 0 ys 0"
    by simp
  show ?thesis
    unfolding generateVideo_def loop by (rule refl)
qed

theorem duration_field_is_ignored_witness:
  "list_all2 (\<lambda>a b. \<exists>d. b = a\<lparr>duration := d\<rparr>)
     [slideOf ''a.png'' (Some wav1) 0, slideOf ''a.png'' None 5]
     [slideOf ''a.png'' (Some wav1) 99, slideOf ''a.png'' None 0]
   \<and> generateVideo host [slideOf ''a.png'' (Some wav1) 0, slideOf ''a.png'' None 5] =
       generateVideo host [slideOf ''a.png'' (Some wav1) 99, slideOf ''a.png'' None 0]"
proof -
  have h: "list_all2 (\<lambda>a b. \<exists>d. b = a\<lparr>duration := d\<rparr>)
     [slideOf ''a.png'' (Some wav1) 0, slideOf ''a.png'' None 5]
     [slideOf ''a.png'' (Some wav1) 99, slideOf ''a.png'' None 0]"
    by (simp add: slideOf_def)
  from duration_field_is_ignored [OF h] h show ?thesis by blast
qed


subsection \<open>C8: progress reporting\<close>




subsection \<open>C4: letterbox placement\<close>




subsection \<open>C1: slides without audio\<close>



end
